theory Spec2Isabelle
  imports Main
begin

section \<open>Naming inference (cache-utils plugin helpers)\<close>

text \<open>
  The plugin groups operations by a service name inferred from the operation name and
  derives a short method name. Both helpers are regular-expression programs over the
  operation name. Operation names are GraphQL names, so a \<open>string\<close> of 8-bit characters
  holds them; \<open>\w\<close> is the class \<open>[A-Za-z0-9_]\<close>.
\<close>

definition upper_letters :: string where
  "upper_letters = ''ABCDEFGHIJKLMNOPQRSTUVWXYZ''"

definition lower_letters :: string where
  "lower_letters = ''abcdefghijklmnopqrstuvwxyz''"

definition is_word_char :: "char \<Rightarrow> bool" where
  "is_word_char c \<longleftrightarrow> c \<in> set (upper_letters @ lower_letters @ ''0123456789_'')"

text \<open>\<open>String.prototype.toLowerCase\<close>, on the characters a \<open>\w+\<close> capture can hold.\<close>

definition lower_char :: "char \<Rightarrow> char" where
  "lower_char c = (case map_of (zip upper_letters lower_letters) c of None \<Rightarrow> c | Some l \<Rightarrow> l)"

definition toLowerCase :: "string \<Rightarrow> string" where
  "toLowerCase s = map lower_char s"

definition startsWith :: "string \<Rightarrow> string \<Rightarrow> bool" where
  "startsWith p s \<longleftrightarrow> take (length p) s = p"

text \<open>\<open>s.includes(sub)\<close>: \<open>sub\<close> occurs somewhere in \<open>s\<close>.\<close>

fun includes_str :: "string \<Rightarrow> string \<Rightarrow> bool" where
  "includes_str sub [] = (sub = [])"
| "includes_str sub (c # cs) = (startsWith sub (c # cs) \<or> includes_str sub cs)"

text \<open>
  A capture \<open>(\w+)\<close> followed by the literal \<open>lit\<close>, anchored at the start of the
  subject. The quantifier is greedy and backtracks: the engine first takes all \<open>n\<close>
  leading word characters and gives one back at a time until \<open>lit\<close> follows, never
  going below one character. The result is the text of the capture group.
\<close>

fun backtrack :: "nat \<Rightarrow> string \<Rightarrow> string \<Rightarrow> string option" where
  "backtrack 0 lit s = None"
| "backtrack (Suc n) lit s =
     (if startsWith lit (drop (Suc n) s) then Some (take (Suc n) s) else backtrack n lit s)"

definition word_capture :: "string \<Rightarrow> string \<Rightarrow> string option" where
  "word_capture lit s = backtrack (length (takeWhile is_word_char s)) lit s"

text \<open>
  A pattern \<open>/^pre(\w+)post/\<close> applied with \<open>operationName.match\<close>: \<open>None\<close> is the
  \<open>null\<close> of a failed match, \<open>Some g\<close> carries \<open>match[1]\<close>.
\<close>

definition match_pattern :: "string \<Rightarrow> string \<Rightarrow> string \<Rightarrow> string option" where
  "match_pattern pre post s =
     (if startsWith pre s then word_capture post (drop (length pre) s) else None)"

definition transform :: "string \<Rightarrow> string" where
  "transform g = toLowerCase g @ ''s''"

text \<open>The ordered rule list of \<open>extractServiceName\<close>, as (prefix, suffix) of each pattern.\<close>

definition patterns :: "(string \<times> string) list" where
  "patterns =
     [(''Get'', ''Service''),
      ('''', ''Service''),
      (''Get'', ''''),
      (''Create'', ''''),
      (''Update'', ''''),
      (''Delete'', '''')]"

fun first_match :: "(string \<times> string) list \<Rightarrow> string \<Rightarrow> string option" where
  "first_match [] s = None"
| "first_match ((pre, post) # ps) s =
     (case match_pattern pre post s of Some g \<Rightarrow> Some (transform g) | None \<Rightarrow> first_match ps s)"

definition extractServiceName :: "string \<Rightarrow> string" where
  "extractServiceName operationName =
     (case first_match patterns operationName of Some serviceName \<Rightarrow> serviceName
      | None \<Rightarrow> ''general'')"

text \<open>
  \<open>s.replace(/^(a1|a2|...)rest/, '')\<close>: the alternatives are tried in order at the start
  of the subject; the first whose text, followed by \<open>rest\<close>, is a prefix is removed.
\<close>

fun strip_alternatives :: "string list \<Rightarrow> string \<Rightarrow> string \<Rightarrow> string" where
  "strip_alternatives [] rest s = s"
| "strip_alternatives (a # alts) rest s =
     (if startsWith (a @ rest) s then drop (length (a @ rest)) s
      else strip_alternatives alts rest s)"

text \<open>\<open>s.replace(/lit/, '')\<close> without the global flag: the first occurrence is removed.\<close>

fun remove_first :: "string \<Rightarrow> string \<Rightarrow> string" where
  "remove_first lit [] = []"
| "remove_first lit (c # cs) =
     (if startsWith lit (c # cs) then drop (length lit) (c # cs) else c # remove_first lit cs)"

definition verbs :: "string list" where
  "verbs = [''Get'', ''Create'', ''Update'', ''Delete'']"

definition extractShortName :: "string \<Rightarrow> string" where
  "extractShortName operationName =
     (let shortName =
        (if includes_str ''NotificationService'' operationName
         then strip_alternatives [''Get''] ''''
                (strip_alternatives verbs ''NotificationService'' operationName)
         else strip_alternatives [''Booking''] ''''
                (strip_alternatives [''User''] ''''
                  (remove_first ''Service''
                    (strip_alternatives verbs '''' operationName))))
      in ''get'' @ shortName)"

section \<open>Values of the host language\<close>

text \<open>
  Variables, filter values and cached data are untyped host values (\<open>any\<close>). An object
  carries its reference (a number that stands for its identity) and its own properties;
  \<open>===\<close> compares primitives by value and objects by reference. Numbers are the
  integers, strings are 8-bit character lists; arrays and functions are outside the
  model.
\<close>

datatype jsval =
    JUndefined
  | JNull
  | JBool bool
  | JNum int
  | JStr string
  | JObj nat "(string \<times> jsval) list"

datatype js_error = TypeError

definition strict_eq :: "jsval \<Rightarrow> jsval \<Rightarrow> bool" where
  "strict_eq x y =
     (case (x, y) of
        (JObj a _, JObj b _) \<Rightarrow> a = b
      | (JObj _ _, _) \<Rightarrow> False
      | (_, JObj _ _) \<Rightarrow> False
      | _ \<Rightarrow> x = y)"

text \<open>The decimal text of an index, as a property name.\<close>

definition digit_char :: "nat \<Rightarrow> char" where
  "digit_char d = ''0123456789'' ! d"

function string_of_nat :: "nat \<Rightarrow> string" where
  "string_of_nat n =
     (if n < 10 then [digit_char n] else string_of_nat (n div 10) @ [digit_char (n mod 10)])"
  by pat_completeness auto
termination
  by (relation "measure id") auto

text \<open>
  The own properties of a value other than \<open>undefined\<close> and \<open>null\<close>: those of an
  object; for a string its \<open>length\<close> and its characters under their indices; none for
  a number or a boolean.
\<close>

definition own_property :: "jsval \<Rightarrow> string \<Rightarrow> jsval option" where
  "own_property v k =
     (case v of
        JObj _ ps \<Rightarrow> map_of ps k
      | JStr s \<Rightarrow>
          (if k = ''length'' then Some (JNum (int (length s)))
           else map_of (map (\<lambda>i. (string_of_nat i, JStr [s ! i])) [0..<length s]) k)
      | _ \<Rightarrow> None)"

definition has_own :: "jsval \<Rightarrow> string \<Rightarrow> bool" where
  "has_own v k \<longleftrightarrow> own_property v k \<noteq> None"

text \<open>
  A read that finds no own property goes on to the prototype chain of the value (of
  its wrapper, for a primitive). What a value inherits is the business of the engine
  and of whoever made the object, so it is a parameter: \<open>inh v k\<close> is what the chain
  of \<open>v\<close> holds under the name \<open>k\<close>, \<open>undefined\<close> when it holds nothing.
\<close>

type_synonym inherited = "jsval \<Rightarrow> string \<Rightarrow> jsval"

text \<open>\<open>obj[key]\<close> on a value that is neither \<open>undefined\<close> nor \<open>null\<close>.\<close>

definition get_prop :: "inherited \<Rightarrow> jsval \<Rightarrow> string \<Rightarrow> jsval" where
  "get_prop inh v k = (case own_property v k of Some x \<Rightarrow> x | None \<Rightarrow> inh v k)"

text \<open>\<open>obj?.[key]\<close>: \<open>undefined\<close> when \<open>obj\<close> is \<open>undefined\<close> or \<open>null\<close>.\<close>

definition optional_get :: "inherited \<Rightarrow> jsval \<Rightarrow> string \<Rightarrow> jsval" where
  "optional_get inh obj k =
     (if obj = JUndefined \<or> obj = JNull then JUndefined else get_prop inh obj k)"

text \<open>\<open>key[i]\<close> on an array: \<open>undefined\<close> past the end.\<close>

definition key_segment :: "jsval list \<Rightarrow> nat \<Rightarrow> jsval" where
  "key_segment key i = (if i < length key then key ! i else JUndefined)"

section \<open>Cache utilities factory (core/utils.ts)\<close>

subsection \<open>The cache client the factory is given\<close>

text \<open>
  The factory receives the cache client as an argument and only calls five of its
  methods. The client is a library outside this repository, so it is a parameter
  here too: a record of the five methods over a state \<open>'s\<close> of the client's own.
  The asynchronous methods are the state transformers they complete as.
\<close>

record query =
  queryKey :: "jsval list"
  state_data :: jsval
  isInvalidated :: bool
  isFetching :: bool

record QueryFilters =
  filterKey :: "jsval list"
  predicate :: "(query \<Rightarrow> bool) option"

datatype updater = Value jsval | Updater "jsval \<Rightarrow> jsval"

record 's QueryClient =
  invalidateQueries :: "QueryFilters \<Rightarrow> 's \<Rightarrow> 's"
  refetchQueries :: "QueryFilters \<Rightarrow> 's \<Rightarrow> 's"
  cancelQueries :: "QueryFilters \<Rightarrow> 's \<Rightarrow> 's"
  getQueryData :: "jsval list \<Rightarrow> 's \<Rightarrow> jsval"
  setQueryData :: "jsval list \<Rightarrow> updater \<Rightarrow> 's \<Rightarrow> 's"

subsection \<open>createQueryKeys\<close>

type_synonym QueryKeyFactory = "string \<rightharpoonup> (jsval \<Rightarrow> jsval list)"

definition key_of :: "string \<Rightarrow> jsval \<Rightarrow> jsval list" where
  "key_of operationName variables =
     (if variables = JUndefined then [JStr operationName] else [JStr operationName, variables])"

definition createQueryKeys :: "string list \<Rightarrow> QueryKeyFactory" where
  "createQueryKeys operations =
     foldl (\<lambda>keys operationName. keys(operationName \<mapsto> key_of operationName))
       Map.empty operations"

subsection \<open>createUtilsFactory\<close>

record UtilsConfig =
  queryKeys :: QueryKeyFactory
  groups :: "(string \<times> string list) list"

type_synonym filters = "(string \<times> jsval) list"

text \<open>
  \<open>invalidate\<close>, \<open>refetch\<close> and \<open>cancel\<close> build the same argument for the client:
  the key \<open>[operationName]\<close>, and a predicate only when \<open>filters\<close> is given and has at
  least one key. The predicate reads the second key segment of an entry and requires
  \<open>variables?.[key] === value\<close> for every entry of \<open>filters\<close>. \<open>None\<close> is a call
  without \<open>filters\<close>; \<open>Some fs\<close> holds \<open>Object.entries(filters)\<close>. The first
  argument \<open>inh\<close> is what the values read inherit.
\<close>

definition filter_predicate :: "inherited \<Rightarrow> filters \<Rightarrow> query \<Rightarrow> bool" where
  "filter_predicate inh fs q =
     (let variables = key_segment (queryKey q) 1
      in list_all (\<lambda>(key, value). strict_eq (optional_get inh variables key) value) fs)"

definition operation_filters :: "inherited \<Rightarrow> string \<Rightarrow> filters option \<Rightarrow> QueryFilters" where
  "operation_filters inh operationName fo =
     (case fo of
        Some fs \<Rightarrow>
          (if length fs > 0
           then \<lparr>filterKey = [JStr operationName],
                 predicate = Some (filter_predicate inh fs)\<rparr>
           else \<lparr>filterKey = [JStr operationName], predicate = None\<rparr>)
      | None \<Rightarrow> \<lparr>filterKey = [JStr operationName], predicate = None\<rparr>)"

text \<open>
  The call \<open>queryKeys[operationName](variables)\<close>. Calling a key function the
  factory does not hold is a \<open>TypeError\<close>.
\<close>

definition call_key :: "QueryKeyFactory \<Rightarrow> string \<Rightarrow> jsval \<Rightarrow> js_error + jsval list" where
  "call_key keys operationName variables =
     (case keys operationName of None \<Rightarrow> Inl TypeError | Some k \<Rightarrow> Inr (k variables))"

record 's handle =
  invalidate :: "filters option \<Rightarrow> 's \<Rightarrow> 's"
  refetch :: "filters option \<Rightarrow> 's \<Rightarrow> 's"
  getData :: "jsval \<Rightarrow> 's \<Rightarrow> js_error + jsval"
  setData :: "updater \<Rightarrow> jsval \<Rightarrow> 's \<Rightarrow> js_error + 's"
  cancel :: "filters option \<Rightarrow> 's \<Rightarrow> 's"

text \<open>The object stored at \<open>utils[groupName][camelCaseName]\<close>.\<close>

definition operation_handle ::
  "inherited \<Rightarrow> QueryKeyFactory \<Rightarrow> 's QueryClient \<Rightarrow> string \<Rightarrow> 's handle" where
  "operation_handle inh keys queryClient operationName =
     \<lparr>invalidate =
        (\<lambda>fo. invalidateQueries queryClient (operation_filters inh operationName fo)),
      refetch = (\<lambda>fo. refetchQueries queryClient (operation_filters inh operationName fo)),
      getData = (\<lambda>variables s.
        case call_key keys operationName variables of
          Inl e \<Rightarrow> Inl e
        | Inr key \<Rightarrow> Inr (getQueryData queryClient key s)),
      setData = (\<lambda>d variables s.
        case call_key keys operationName variables of
          Inl e \<Rightarrow> Inl e
        | Inr key \<Rightarrow> Inr (setQueryData queryClient key d s)),
      cancel = (\<lambda>fo. cancelQueries queryClient (operation_filters inh operationName fo))\<rparr>"

text \<open>\<open>operationName.charAt(0).toLowerCase() + operationName.slice(1)\<close>.\<close>

definition camelCaseName :: "string \<Rightarrow> string" where
  "camelCaseName operationName =
     (case operationName of [] \<Rightarrow> [] | c # cs \<Rightarrow> lower_char c # cs)"

definition group_utils ::
  "inherited \<Rightarrow> QueryKeyFactory \<Rightarrow> 's QueryClient \<Rightarrow> string list
     \<Rightarrow> (string \<rightharpoonup> 's handle)" where
  "group_utils inh keys queryClient operationNames =
     foldl (\<lambda>g operationName.
              g(camelCaseName operationName
                  \<mapsto> operation_handle inh keys queryClient operationName))
       Map.empty operationNames"

definition createUtilsFactory ::
  "inherited \<Rightarrow> UtilsConfig \<Rightarrow> 's QueryClient
     \<Rightarrow> (string \<rightharpoonup> (string \<rightharpoonup> 's handle))" where
  "createUtilsFactory inh config queryClient =
     foldl (\<lambda>utils (groupName, operationNames).
              utils(groupName
                      \<mapsto> group_utils inh (queryKeys config) queryClient operationNames))
       Map.empty (groups config)"

subsection \<open>A reference cache client\<close>

text \<open>
  Modelled from the spec: the cache client itself, the \<open>QueryClient\<close> of the caching
  library, which the sources only call. The cache is a sequence of entries. An entry is
  addressed by the hash of its key, an ordered sequence whose first element is the
  operation name and whose optional second element is the variables. The hash is the
  JSON text of the key with the properties of every object sorted by name, so it
  depends on the content of the key alone: not on the identity of an object, nor on
  the order of its properties; a property holding \<open>undefined\<close> is left out and an
  \<open>undefined\<close> segment reads as \<open>null\<close>. The model keeps the hash as the key in that
  normal form and not as text.
\<close>

type_synonym cache = "query list"

fun key_le :: "string \<Rightarrow> string \<Rightarrow> bool" where
  "key_le [] t = True"
| "key_le (c # cs) [] = False"
| "key_le (c # cs) (d # ds) = ((of_char c :: nat) < of_char d \<or> (c = d \<and> key_le cs ds))"

fun insert_member :: "string \<times> 'a \<Rightarrow> (string \<times> 'a) list \<Rightarrow> (string \<times> 'a) list" where
  "insert_member m [] = [m]"
| "insert_member m (n # ns) =
     (if key_le (fst m) (fst n) then m # n # ns else n # insert_member m ns)"

definition sort_members :: "(string \<times> 'a) list \<Rightarrow> (string \<times> 'a) list" where
  "sort_members ms = foldr insert_member ms []"

text \<open>
  The content of a value: references forgotten, properties in the order of their
  names. With \<open>json\<close> set, properties holding \<open>undefined\<close> are left out as well.
\<close>

fun canon :: "bool \<Rightarrow> jsval \<Rightarrow> jsval" where
  "canon json (JObj r ps) =
     JObj 0 (sort_members
       (filter (\<lambda>kv. \<not> json \<or> snd kv \<noteq> JUndefined)
          (map (\<lambda>kv. (fst kv, canon json (snd kv))) ps)))"
| "canon json v = v"

definition hashKey :: "jsval list \<Rightarrow> jsval list" where
  "hashKey key = map (\<lambda>v. if v = JUndefined then JNull else canon True v) key"


text \<open>
  A filter selects the entries whose key starts with the segments of the filter's key
  (objects compared member by member) and that the predicate, when there is one,
  accepts.
\<close>

fun partialMatch :: "inherited \<Rightarrow> jsval \<Rightarrow> jsval \<Rightarrow> bool" where
  "partialMatch inh a (JObj r ps) =
     (case a of
        JObj r' ps' \<Rightarrow>
          r' = r \<or> list_all (\<lambda>kv. partialMatch inh (get_prop inh a (fst kv)) (snd kv)) ps
      | _ \<Rightarrow> False)"
| "partialMatch inh a b = strict_eq a b"

definition partialMatchKey :: "inherited \<Rightarrow> jsval list \<Rightarrow> jsval list \<Rightarrow> bool" where
  "partialMatchKey inh a b =
     list_all (\<lambda>i. partialMatch inh (key_segment a i) (b ! i)) [0..<length b]"

definition matchQuery :: "inherited \<Rightarrow> QueryFilters \<Rightarrow> query \<Rightarrow> bool" where
  "matchQuery inh f q =
     (partialMatchKey inh (queryKey q) (filterKey f) \<and>
      (case predicate f of None \<Rightarrow> True | Some p \<Rightarrow> p q))"

definition find_query :: "jsval list \<Rightarrow> cache \<Rightarrow> query option" where
  "find_query key c = find (\<lambda>q. hashKey (queryKey q) = hashKey key) c"

text \<open>A read of a key the cache does not hold is \<open>undefined\<close>.\<close>

definition read_data :: "jsval list \<Rightarrow> cache \<Rightarrow> jsval" where
  "read_data key c = (case find_query key c of None \<Rightarrow> JUndefined | Some q \<Rightarrow> state_data q)"

text \<open>
  A write computes the data, the updater form from the previous value, and does
  nothing when the data is \<open>undefined\<close>. Otherwise it replaces the data of the entry
  with that hash, or adds the entry. The client may keep, in place of the data, a copy
  of the same content that shares unchanged parts with the previous value; the model
  keeps the data.
\<close>

definition write_data :: "jsval list \<Rightarrow> updater \<Rightarrow> cache \<Rightarrow> cache" where
  "write_data key u c =
     (let d = (case u of Value v \<Rightarrow> v | Updater f \<Rightarrow> f (read_data key c))
      in if d = JUndefined then c
         else case find_query key c of
           None \<Rightarrow>
             c @ [\<lparr>queryKey = key, state_data = d, isInvalidated = False, isFetching = False\<rparr>]
         | Some _ \<Rightarrow>
             map (\<lambda>q. if hashKey (queryKey q) = hashKey key
                       then q\<lparr>state_data := d, isInvalidated := False\<rparr>
                       else q) c)"

definition mark_matching ::
  "inherited \<Rightarrow> (query \<Rightarrow> query) \<Rightarrow> QueryFilters \<Rightarrow> cache \<Rightarrow> cache" where
  "mark_matching inh upd f c = map (\<lambda>q. if matchQuery inh f q then upd q else q) c"

definition refClient :: "inherited \<Rightarrow> cache QueryClient" where
  "refClient inh =
     \<lparr>invalidateQueries = mark_matching inh (\<lambda>q. q\<lparr>isInvalidated := True\<rparr>),
      refetchQueries = mark_matching inh (\<lambda>q. q\<lparr>isFetching := True\<rparr>),
      cancelQueries = mark_matching inh (\<lambda>q. q\<lparr>isFetching := False\<rparr>),
      getQueryData = read_data,
      setQueryData = write_data\<rparr>"

section \<open>The fetcher embedded by the configuration compiler (core/codegen.ts)\<close>

text \<open>
  The react-query target carries the source text of a \<open>fetcher\<close> function, with the
  endpoint's \<open>gatewayEndpoint\<close> written into it as a string literal. The function is
  modelled as it runs in the generated module; \<open>gateway\<close> is the value of that
  literal, which is \<open>config.gatewayEndpoint\<close> itself for a URL without quote,
  backslash or line break.
\<close>

subsection \<open>Building the request\<close>

text \<open>
  \<open>options\<close> is an object, a finite map from property names to values. Its declared
  type is a union of \<open>{customHeaders?, endpoint?}\<close> and a flat header map, so a
  property holds a string, a header map, or \<open>undefined\<close>.
\<close>

datatype optval = OStr string | OHeaders "string \<rightharpoonup> string" | OUndefined

type_synonym options = "string \<rightharpoonup> optval"

definition has_key :: "string \<Rightarrow> options \<Rightarrow> bool" where
  "has_key k opts \<longleftrightarrow> opts k \<noteq> None"

definition option_member :: "options \<Rightarrow> string \<Rightarrow> optval" where
  "option_member opts k = (case opts k of None \<Rightarrow> OUndefined | Some v \<Rightarrow> v)"

definition truthy_optval :: "optval \<Rightarrow> bool" where
  "truthy_optval v = (case v of OStr s \<Rightarrow> s \<noteq> [] | OHeaders _ \<Rightarrow> True | OUndefined \<Rightarrow> False)"

text \<open>
  The own enumerable properties \<open>{...v}\<close> copies: the entries of a header map, the
  characters of a string under their indices.
\<close>

definition spread :: "optval \<Rightarrow> options" where
  "spread v =
     (case v of
        OStr s \<Rightarrow> map_of (map (\<lambda>i. (string_of_nat i, OStr [s ! i])) [0..<length s])
      | OHeaders h \<Rightarrow> map_option OStr \<circ> h
      | OUndefined \<Rightarrow> Map.empty)"

record 'v request =
  req_target :: optval
  req_method :: string
  req_headers :: options
  req_body :: "string \<times> 'v"

text \<open>The pair \<open>(customHeaders, endpoint)\<close> after the \<open>if (options)\<close> block.\<close>

definition resolve_options :: "string \<Rightarrow> options option \<Rightarrow> options \<times> optval" where
  "resolve_options gateway opts =
     (case opts of
        None \<Rightarrow> (Map.empty, OStr gateway)
      | Some ob \<Rightarrow>
          if has_key ''customHeaders'' ob \<or> has_key ''endpoint'' ob
          then ((if truthy_optval (option_member ob ''customHeaders'')
                 then spread (option_member ob ''customHeaders'') else Map.empty),
                (if truthy_optval (option_member ob ''endpoint'')
                 then option_member ob ''endpoint'' else OStr gateway))
          else (ob, OStr gateway))"

definition build_request ::
  "string \<Rightarrow> string \<Rightarrow> 'v \<Rightarrow> options option \<Rightarrow> 'v request" where
  "build_request gateway query variables opts =
     (let (customHeaders, endpoint) = resolve_options gateway opts
      in \<lparr>req_target = endpoint,
          req_method = ''POST'',
          req_headers = [''Content-Type'' \<mapsto> OStr ''application/json''] ++ customHeaders,
          req_body = (query, variables)\<rparr>)"

subsection \<open>Reading the response\<close>

text \<open>
  \<open>res.json()\<close> yields a parsed JSON value. An object is its list of members, read
  with \<open>map_of\<close>; a member read that finds nothing is \<open>undefined\<close>, here \<open>None\<close>.
  Numbers are the integers; only their being zero or not matters to the fetcher.
\<close>

datatype json =
    JsNull
  | JsBool bool
  | JsNum int
  | JsStr string
  | JsArr "json list"
  | JsObj "(string \<times> json) list"

datatype 'e failure = Thrown "json option" | Runtime js_error | Transport 'e

text \<open>
  \<open>v.name\<close> for the names the fetcher reads (\<open>errors\<close>, \<open>data\<close>, \<open>message\<close>), on a
  value other than \<open>null\<close>: only an object can have such a member.
\<close>

definition member :: "json \<Rightarrow> string \<Rightarrow> json option" where
  "member v name = (case v of JsObj ms \<Rightarrow> map_of ms name | _ \<Rightarrow> None)"

text \<open>\<open>v[0]\<close> on a value other than \<open>null\<close>.\<close>

definition first_element :: "json \<Rightarrow> json option" where
  "first_element v =
     (case v of
        JsArr xs \<Rightarrow> (case xs of [] \<Rightarrow> None | x # _ \<Rightarrow> Some x)
      | JsStr s \<Rightarrow> (case s of [] \<Rightarrow> None | c # _ \<Rightarrow> Some (JsStr [c]))
      | JsObj ms \<Rightarrow> map_of ms ''0''
      | _ \<Rightarrow> None)"

definition truthy :: "json option \<Rightarrow> bool" where
  "truthy v =
     (case v of
        None \<Rightarrow> False
      | Some JsNull \<Rightarrow> False
      | Some (JsBool b) \<Rightarrow> b
      | Some (JsNum n) \<Rightarrow> n \<noteq> 0
      | Some (JsStr s) \<Rightarrow> s \<noteq> []
      | Some _ \<Rightarrow> True)"

text \<open>
  From \<open>const json = await res.json()\<close> on. Reading a member of \<open>null\<close>, and
  destructuring \<open>undefined\<close> or \<open>null\<close>, raise a \<open>TypeError\<close>.
\<close>

definition read_response :: "json \<Rightarrow> 'e failure + json option" where
  "read_response js =
     (if js = JsNull then Inl (Runtime TypeError)
      else if truthy (member js ''errors'')
      then (case first_element (the (member js ''errors'')) of
              None \<Rightarrow> Inl (Runtime TypeError)
            | Some JsNull \<Rightarrow> Inl (Runtime TypeError)
            | Some e \<Rightarrow> Inl (Thrown (member e ''message'')))
      else Inr (member js ''data''))"

text \<open>
  The operation the fetcher returns, run to completion. \<open>transport\<close> stands for
  \<open>fetch\<close> followed by \<open>res.json()\<close>: it answers a request with the parsed body, or
  fails.
\<close>

definition fetcher ::
  "string \<Rightarrow> ('v request \<Rightarrow> 'e + json) \<Rightarrow> string \<Rightarrow> 'v \<Rightarrow> options option
     \<Rightarrow> 'e failure + json option" where
  "fetcher gateway transport query variables opts =
     (case transport (build_request gateway query variables opts) of
        Inl e \<Rightarrow> Inl (Transport e)
      | Inr js \<Rightarrow> read_response js)"

text \<open>A transport that answers every request with the same parsed body.\<close>

definition respond_with :: "json \<Rightarrow> 'v request \<Rightarrow> unit + json" where
  "respond_with js r = Inr js"

section \<open>Endpoint configuration compiler (core/codegen.ts)\<close>

record EndpointConfig =
  schema :: string
  headers :: "(string \<times> string) list option"
  documentsPath :: string
  gatewayEndpoint :: string

text \<open>
  \<open>endpoints\<close> holds \<open>Object.entries(options.endpoints)\<close>: the pairs of the map in
  the order the loop visits them. The names of a map are pairwise distinct.
\<close>

record CodegenOptions =
  endpoints :: "(string \<times> EndpointConfig) list"
  baseOutputDir :: "string option"
  reactQueryVersion :: "int option"
  appName :: "string option"

record react_query_config =
  rq_fetcher :: string
  rq_reactQueryVersion :: int
  exposeQueryKeys :: bool
  exposeMutationKeys :: bool
  exposeDocument :: bool
  exposeFetcher :: bool
  addSuspenseQuery :: bool
  addInfiniteQuery :: bool
  rawRequest :: bool
  dedupeFragments :: bool
  errorType :: string

datatype target_config =
    ReactQueryConfig react_query_config
  | CacheUtilsConfig string
  | ReadmeConfig string "string list" bool

text \<open>
  A generation target. \<open>t_schema\<close> is the one-entry object
  \<open>{ [schema]: { headers } }\<close>: the schema location and the headers sent with it.
\<close>

record target =
  t_preset :: "string option"
  t_schema :: "string \<times> (string \<times> string) list"
  t_documents :: "string list option"
  t_plugins :: "string list option"
  t_config :: "target_config option"

record CodegenConfig =
  ignoreNoDocuments :: bool
  generates :: "(string \<times> target) list"

text \<open>
  \<open>obj[k] = v\<close> on an object kept as its properties in insertion order: an existing
  property keeps its place and takes the new value, a new one goes to the end.
\<close>

fun assign :: "'k \<Rightarrow> 'v \<Rightarrow> ('k \<times> 'v) list \<Rightarrow> ('k \<times> 'v) list" where
  "assign k v [] = [(k, v)]"
| "assign k v (p # ps) = (if fst p = k then (k, v) # ps else p # assign k v ps)"

definition newline :: string where
  "newline = [CHR 0x0A]"

definition fetcher_source :: "string \<Rightarrow> string" where
  \<open>fetcher_source gateway =
     newline @ concat (map (\<lambda>l. l @ newline)
     [''          function fetcher<TData, TVariables>(query: string, variables?: TVariables, options?: { customHeaders?: Record<string, string>; endpoint?: string } | Record<string, string>) {'',
      ''            return async (): Promise<TData> => {'',
      ''              let customHeaders: Record<string, string> = {};'',
      ''              let endpoint = "'' @ gateway @ ''";'',
      '''',
      ''              if (options) {'',
      ''                if ('customHeaders' in options || 'endpoint' in options) {'',
      ''                  customHeaders = (options as any).customHeaders || {};'',
      ''                  endpoint = (options as any).endpoint || "'' @ gateway @ ''";'',
      ''                } else {'',
      ''                  customHeaders = options as Record<string, string>;'',
      ''                }'',
      ''              }'',
      '''',
      ''              const headers = {'',
      ''                'Content-Type': 'application/json','',
      ''                ...customHeaders,'',
      ''              };'',
      '''',
      ''              const res = await fetch(endpoint, {'',
      ''                method: "POST",'',
      ''                headers,'',
      ''                body: JSON.stringify({ query, variables }),'',
      ''              });'',
      '''',
      ''              const json = await res.json();'',
      '''',
      ''              if (json.errors) {'',
      ''                const { message } = json.errors[0];'',
      ''                throw message;'',
      ''              }'',
      '''',
      ''              return json.data;'',
      ''            }'',
      ''          }'']) @ ''        ''\<close>

text \<open>\<open>config.headers || {}\<close>.\<close>

definition headers_or_empty :: "EndpointConfig \<Rightarrow> (string \<times> string) list" where
  "headers_or_empty config = (case headers config of None \<Rightarrow> [] | Some h \<Rightarrow> h)"

text \<open>\<open>names.join(', ')\<close>.\<close>

fun join_names :: "string list \<Rightarrow> string" where
  "join_names [] = []"
| "join_names [n] = n"
| "join_names (n # ns) = n @ '', '' @ join_names ns"

text \<open>
  The body of the \<open>forEach\<close>: the four targets of one endpoint. \<open>plugin_path\<close> stands
  for \<open>join(__dirname, ...)\<close>, the module's own directory joined with a relative path.
\<close>

definition endpoint_targets ::
  "(string \<Rightarrow> string) \<Rightarrow> string \<Rightarrow> int \<Rightarrow> string \<times> EndpointConfig
     \<Rightarrow> (string \<times> target) list \<Rightarrow> (string \<times> target) list" where
  "endpoint_targets plugin_path base version entry gen =
     (let name = fst entry; config = snd entry;
          outputDir = base @ ''/'' @ name;
          pluginsDirectory = outputDir @ ''/plugins'';
          sch = (schema config, headers_or_empty config);
          gen1 = assign (outputDir @ ''/'')
            \<lparr>t_preset = Some ''client'', t_schema = sch,
             t_documents = Some [documentsPath config], t_plugins = None,
             t_config = None\<rparr> gen;
          gen2 = assign (pluginsDirectory @ ''/graphql-request.ts'')
            \<lparr>t_preset = None, t_schema = sch,
             t_documents = Some [documentsPath config],
             t_plugins = Some [''typescript'', ''typescript-operations'',
                               ''typescript-graphql-request''],
             t_config = None\<rparr> gen1;
          gen3 = assign (pluginsDirectory @ ''/react-query.ts'')
            \<lparr>t_preset = None, t_schema = sch,
             t_documents = Some [documentsPath config],
             t_plugins = Some [''typescript'', ''typescript-operations'',
                               ''typescript-react-query''],
             t_config = Some (ReactQueryConfig
               \<lparr>rq_fetcher = fetcher_source (gatewayEndpoint config),
                rq_reactQueryVersion = version,
                exposeQueryKeys = True,
                exposeMutationKeys = True,
                exposeDocument = True,
                exposeFetcher = True,
                addSuspenseQuery = True,
                addInfiniteQuery = True,
                rawRequest = False,
                dedupeFragments = True,
                errorType = ''string''\<rparr>)\<rparr> gen2
      in assign (outputDir @ ''/cache-utils.ts'')
           \<lparr>t_preset = None, t_schema = sch,
            t_documents = Some [documentsPath config],
            t_plugins = Some [plugin_path ''../plugins/cache-utils.plugin.cjs''],
            t_config = Some (CacheUtilsConfig name)\<rparr> gen3)"

definition readme_target ::
  "(string \<Rightarrow> string) \<Rightarrow> string \<Rightarrow> EndpointConfig \<Rightarrow> string list \<Rightarrow> target" where
  "readme_target plugin_path app firstEndpoint endpointNames =
     \<lparr>t_preset = None,
      t_schema = (schema firstEndpoint, headers_or_empty firstEndpoint),
      t_documents = None,
      t_plugins = Some [plugin_path ''../plugins/readme-generator.plugin.cjs''],
      t_config = Some (ReadmeConfig
        (if length endpointNames \<noteq> 0
         then app @ '' (Multi-endpoint: '' @ join_names endpointNames @ '')''
         else app)
        endpointNames
        (length endpointNames \<noteq> 0))\<rparr>"

text \<open>
  \<open>dotenv.config()\<close> loads environment variables and has no part in the result.
  \<open>Object.values(endpoints)[0]\<close> is \<open>undefined\<close> for the empty map, and an endpoint
  configuration is an object, so the test \<open>if (firstEndpoint)\<close> is the test that the
  map has an entry.
\<close>

definition createCodegenConfig ::
  "(string \<Rightarrow> string) \<Rightarrow> CodegenOptions \<Rightarrow> CodegenConfig" where
  "createCodegenConfig plugin_path opts =
     (let base = (case baseOutputDir opts of None \<Rightarrow> ''src/libs/gql/__gen__'' | Some b \<Rightarrow> b);
          version = (case reactQueryVersion opts of None \<Rightarrow> 5 | Some v \<Rightarrow> v);
          app = (case appName opts of None \<Rightarrow> ''your app'' | Some a \<Rightarrow> a);
          gen = foldl (\<lambda>g entry. endpoint_targets plugin_path base version entry g)
                  [] (endpoints opts);
          endpointNames = map fst (endpoints opts);
          gen' = (case map snd (endpoints opts) of
                    [] \<Rightarrow> gen
                  | firstEndpoint # _ \<Rightarrow>
                      assign (base @ ''/../README.md'')
                        (readme_target plugin_path app firstEndpoint endpointNames) gen)
      in \<lparr>ignoreNoDocuments = True, generates = gen'\<rparr>)"

text \<open>The four output paths the loop body assigns for one endpoint, in its order.\<close>

definition endpoint_keys :: "string \<Rightarrow> string \<Rightarrow> string list" where
  "endpoint_keys base name =
     [base @ ''/'' @ name @ ''/'',
      base @ ''/'' @ name @ ''/plugins'' @ ''/graphql-request.ts'',
      base @ ''/'' @ name @ ''/plugins'' @ ''/react-query.ts'',
      base @ ''/'' @ name @ ''/cache-utils.ts'']"

section \<open>Example data\<close>

text \<open>
  A cache entry of the operation \<open>GetUser\<close>, not yet invalidated, stored under the
  given variables; a cache entry with given key and data; the chain of values that
  inherit nothing, as an object made with a null prototype does; and two endpoint
  configurations.
\<close>

definition user_entry :: "jsval \<Rightarrow> query" where
  "user_entry variables =
     \<lparr>queryKey = [JStr ''GetUser'', variables], state_data = JNull,
      isInvalidated = False, isFetching = False\<rparr>"


definition no_inherited :: inherited where
  "no_inherited v k = JUndefined"

definition invalidated :: "query \<Rightarrow> query" where
  "invalidated q = q\<lparr>isInvalidated := True\<rparr>"

definition example_endpoint :: "string \<Rightarrow> EndpointConfig" where
  "example_endpoint url =
     \<lparr>schema = url @ ''/graphql'', headers = None,
      documentsPath = ''src/libs/gql/schemas/**/*.gql'', gatewayEndpoint = url\<rparr>"

definition example_options :: "(string \<times> EndpointConfig) list \<Rightarrow> CodegenOptions" where
  "example_options es =
     \<lparr>endpoints = es, baseOutputDir = None, reactQueryVersion = None, appName = None\<rparr>"

section \<open>Properties of the naming inference\<close>

lemmas naming_defs =
  extractServiceName_def patterns_def match_pattern_def word_capture_def transform_def
  toLowerCase_def lower_char_def startsWith_def is_word_char_def upper_letters_def
  lower_letters_def extractShortName_def verbs_def

text \<open>
  Claim C3. The service name inferred for \<open>GetUserProfile\<close> is meant to be \<open>users\<close>,
  as the comment above \<open>extractServiceName\<close> says. The first two rules need the text
  \<open>Service\<close> and fail; the third, \<open>/^Get(\w+)/\<close>, captures every word character after
  \<open>Get\<close>, so the function returns \<open>userprofiles\<close>.
\<close>

theorem extractServiceName_GetUserProfile:
  "extractServiceName ''GetUserProfile'' = ''userprofiles''"
  by (simp add: naming_defs)

text \<open>The other two names of the claim, and the example of the source comment.\<close>

lemma extractServiceName_CreateBookingRequest:
  "extractServiceName ''CreateBookingRequest'' = ''bookingrequests''"
  by (simp add: naming_defs)

lemma extractServiceName_SubscribeToFeed:
  "extractServiceName ''SubscribeToFeed'' = ''general''"
  by (simp add: naming_defs)

lemma extractServiceName_GetNotificationServiceApps:
  "extractServiceName ''GetNotificationServiceApps'' = ''notifications''"
  by (simp add: naming_defs)

text \<open>
  Claim C7, as stated: the short name of the mutation \<open>UpdateFoo\<close> would be
  \<open>getUpdateFoo\<close>. It is not: the leading \<open>Update\<close> is one of the four verbs the
  general path strips before \<open>get\<close> is put in front.
\<close>

theorem extractShortName_UpdateFoo_counterexample:
  "extractShortName ''UpdateFoo'' \<noteq> ''getUpdateFoo''"
  by (simp add: naming_defs)

text \<open>
  Claim C7, amended: every short name starts with \<open>get\<close>, whatever the operation was,
  and the mutation \<open>UpdateFoo\<close> gets the same short name as the query \<open>GetFoo\<close>,
  namely \<open>getFoo\<close>.
\<close>

theorem extractShortName_get_prefix:
  "take 3 (extractShortName operationName) = ''get'' \<and>
   extractShortName ''UpdateFoo'' = ''getFoo'' \<and>
   extractShortName ''GetFoo'' = ''getFoo''"
proof -
  have "take 3 (extractShortName operationName) = ''get''"
    by (simp add: extractShortName_def Let_def)
  moreover have "extractShortName ''UpdateFoo'' = ''getFoo''"
    by (simp add: naming_defs)
  moreover have "extractShortName ''GetFoo'' = ''getFoo''"
    by (simp add: naming_defs)
  ultimately show ?thesis by blast
qed

text \<open>
  Claim C8. \<open>GetNotificationServiceApps\<close> takes the NotificationService path: the verb
  and \<open>NotificationService\<close> go as one unit, leaving \<open>Apps\<close>. \<open>GetUserProfile\<close> takes
  the general path: \<open>Get\<close> is stripped, there is no \<open>Service\<close>, the leading \<open>User\<close> is
  stripped, leaving \<open>Profile\<close>.
\<close>

theorem extractShortName_examples:
  "extractShortName ''GetNotificationServiceApps'' = ''getApps'' \<and>
   extractShortName ''GetUserProfile'' = ''getProfile''"
  by (simp add: naming_defs)

text \<open>The second example of the source comment: a further leading \<open>Get\<close> is stripped.\<close>

lemma extractShortName_GetNotificationServiceGetCategories:
  "extractShortName ''GetNotificationServiceGetCategories'' = ''getCategories''"
  by (simp add: naming_defs)

section \<open>Properties of the cache utilities\<close>

lemma createQueryKeys_lookup:
  "createQueryKeys ops op = (if op \<in> set ops then Some (key_of op) else None)"
  unfolding createQueryKeys_def
  by (induction ops rule: rev_induct) auto

text \<open>
  Claim C5. For an operation of the list, the key function answers \<open>[op]\<close> to
  \<open>undefined\<close> and \<open>[op, v]\<close> to any other \<open>v\<close>; the first key is shorter than the
  second and differs from it.
\<close>

theorem createQueryKeys_shape:
  "op \<in> set ops \<Longrightarrow>
     call_key (createQueryKeys ops) op JUndefined = Inr [JStr op] \<and>
     (v \<noteq> JUndefined \<longrightarrow>
        call_key (createQueryKeys ops) op v = Inr [JStr op, v] \<and>
        length [JStr op] < length [JStr op, v] \<and>
        call_key (createQueryKeys ops) op JUndefined \<noteq> call_key (createQueryKeys ops) op v)"
  by (simp add: call_key_def createQueryKeys_lookup key_of_def)

theorem createQueryKeys_shape_witness:
  "''GetUser'' \<in> set [''GetUser''] \<and>
   JObj 1 [(''id'', JNum 1)] \<noteq> JUndefined \<and>
   call_key (createQueryKeys [''GetUser'']) ''GetUser'' JUndefined = Inr [JStr ''GetUser''] \<and>
   call_key (createQueryKeys [''GetUser'']) ''GetUser'' (JObj 1 [(''id'', JNum 1)])
     = Inr [JStr ''GetUser'', JObj 1 [(''id'', JNum 1)]]"
  using createQueryKeys_shape [of "''GetUser''" "[''GetUser'']" "JObj 1 [(''id'', JNum 1)]"]
  by simp

text \<open>
  Every handle of a utils object is the handle of an operation of its group, stored
  under the camel-cased operation name and built on the configured key factory.
\<close>

lemma group_utils_handle:
  "group_utils inh keys qc ops m = Some h \<Longrightarrow>
     \<exists>op \<in> set ops. m = camelCaseName op \<and> h = operation_handle inh keys qc op"
  unfolding group_utils_def
  by (induction ops arbitrary: h rule: rev_induct) (auto split: if_splits)

lemma utils_fold:
  "foldl (\<lambda>utils (g, ops). utils(g \<mapsto> group_utils inh keys qc ops)) Map.empty gs g
     = Some grp \<Longrightarrow>
     \<exists>ops. (g, ops) \<in> set gs \<and> grp = group_utils inh keys qc ops"
  by (induction gs arbitrary: grp rule: rev_induct) (auto split: if_splits)

lemma utils_handle:
  assumes "createUtilsFactory inh config qc g = Some grp" and "grp m = Some h"
  shows "\<exists>ops op. (g, ops) \<in> set (groups config) \<and> op \<in> set ops \<and> m = camelCaseName op \<and>
       h = operation_handle inh (queryKeys config) qc op"
proof -
  from assms(1) obtain ops where ops: "(g, ops) \<in> set (groups config)"
    and grp: "grp = group_utils inh (queryKeys config) qc ops"
    unfolding createUtilsFactory_def by (blast dest: utils_fold)
  from assms(2) grp obtain op where "op \<in> set ops" "m = camelCaseName op"
    "h = operation_handle inh (queryKeys config) qc op"
    by (blast dest: group_utils_handle)
  with ops show ?thesis by blast
qed

text \<open>How the reference client reads the filters the handle builds.\<close>

lemma partialMatchKey_operation:
  "partialMatchKey inh key [JStr op] \<longleftrightarrow> key_segment key 0 = JStr op"
  by (auto simp: partialMatchKey_def strict_eq_def split: jsval.splits)

lemma filter_predicate_iff:
  "filter_predicate inh fs q \<longleftrightarrow>
     (\<forall>(k, v) \<in> set fs. strict_eq (optional_get inh (key_segment (queryKey q) 1) k) v)"
  by (simp add: filter_predicate_def list_all_iff)

text \<open>
  A read gives \<open>undefined\<close> when there are no variables, and when the key is neither an
  own property of the variables nor found on their chain.
\<close>

lemma optional_get_lacking:
  "\<not> has_own obj k \<Longrightarrow> inh obj k = JUndefined \<Longrightarrow> optional_get inh obj k = JUndefined"
  by (simp add: optional_get_def get_prop_def has_own_def)

lemma strict_eq_undefined: "strict_eq JUndefined v \<longleftrightarrow> v = JUndefined"
  by (cases v) (auto simp: strict_eq_def)

lemmas invalidate_defs =
  operation_handle_def refClient_def operation_filters_def mark_matching_def matchQuery_def

text \<open>
  Claim C2, as stated: with non-empty filters, an entry whose stored variables lack a
  filter key is never invalidated. It fails for a filter whose value is \<open>undefined\<close>:
  \<open>variables?.[key]\<close> of a key that is found nowhere is \<open>undefined\<close> too, and the two
  are \<open>===\<close>. Here the entry is stored under \<open>{name: "A"}\<close>, the filter is
  \<open>{id: undefined}\<close>.
\<close>

theorem invalidate_undefined_filter_counterexample:
  "\<not> has_own (JObj 1 [(''name'', JStr ''A'')]) ''id'' \<and>
   invalidate
     (operation_handle no_inherited (createQueryKeys [''GetUser'']) (refClient no_inherited)
        ''GetUser'')
     (Some [(''id'', JUndefined)]) [user_entry (JObj 1 [(''name'', JStr ''A'')])]
   = [invalidated (user_entry (JObj 1 [(''name'', JStr ''A'')]))]"
  by (simp add: invalidate_defs partialMatchKey_operation filter_predicate_def
        key_segment_def optional_get_def get_prop_def own_property_def strict_eq_def
        has_own_def user_entry_def invalidated_def no_inherited_def)

text \<open>
  Claim C2, amended. On the reference client, \<open>invalidate\<close> without filters, or with
  an empty filters object, marks exactly the entries whose first key segment is the
  operation name. With non-empty filters it marks exactly the entries of the operation
  whose variables segment has \<open>variables?.[k] === v\<close> for every filter pair, the read
  finding own and inherited properties alike. An entry for which that read gives
  \<open>undefined\<close> at a filter key (it has no variables, or the key is neither an own
  property of the variables nor inherited) is left as it is when the value of that
  filter is not \<open>undefined\<close>.
\<close>

theorem invalidate_selection:
  "(fo = None \<or> fo = Some [] \<longrightarrow>
      invalidate (operation_handle inh keys (refClient inh) op) fo c =
        map (\<lambda>q. if key_segment (queryKey q) 0 = JStr op then q\<lparr>isInvalidated := True\<rparr>
                  else q) c) \<and>
   (fs \<noteq> [] \<longrightarrow>
      invalidate (operation_handle inh keys (refClient inh) op) (Some fs) c =
        map (\<lambda>q. if key_segment (queryKey q) 0 = JStr op \<and>
                     (\<forall>(k, v) \<in> set fs.
                        strict_eq (optional_get inh (key_segment (queryKey q) 1) k) v)
                  then q\<lparr>isInvalidated := True\<rparr> else q) c) \<and>
   (i < length c \<and> (k, v) \<in> set fs \<and> v \<noteq> JUndefined \<and>
    optional_get inh (key_segment (queryKey (c ! i)) 1) k = JUndefined \<longrightarrow>
      invalidate (operation_handle inh keys (refClient inh) op) (Some fs) c ! i = c ! i) \<and>
   (\<not> has_own (key_segment (queryKey (c ! i)) 1) k \<and>
    inh (key_segment (queryKey (c ! i)) 1) k = JUndefined \<longrightarrow>
      optional_get inh (key_segment (queryKey (c ! i)) 1) k = JUndefined)"
proof (intro conjI impI)
  assume "fo = None \<or> fo = Some []"
  then show "invalidate (operation_handle inh keys (refClient inh) op) fo c =
        map (\<lambda>q. if key_segment (queryKey q) 0 = JStr op then q\<lparr>isInvalidated := True\<rparr>
                  else q) c"
    by (auto simp: invalidate_defs partialMatchKey_operation)
next
  assume "fs \<noteq> []"
  then show "invalidate (operation_handle inh keys (refClient inh) op) (Some fs) c =
        map (\<lambda>q. if key_segment (queryKey q) 0 = JStr op \<and>
                     (\<forall>(k, v) \<in> set fs.
                        strict_eq (optional_get inh (key_segment (queryKey q) 1) k) v)
                  then q\<lparr>isInvalidated := True\<rparr> else q) c"
    by (simp add: invalidate_defs partialMatchKey_operation filter_predicate_iff)
next
  assume a: "i < length c \<and> (k, v) \<in> set fs \<and> v \<noteq> JUndefined \<and>
    optional_get inh (key_segment (queryKey (c ! i)) 1) k = JUndefined"
  then have ne: "fs \<noteq> []" and mem: "(k, v) \<in> set fs" by auto
  from a have "\<not> strict_eq (optional_get inh (key_segment (queryKey (c ! i)) 1) k) v"
    by (simp add: strict_eq_undefined)
  with mem have "\<not> filter_predicate inh fs (c ! i)"
    unfolding filter_predicate_iff by blast
  with a ne
  show "invalidate (operation_handle inh keys (refClient inh) op) (Some fs) c ! i = c ! i"
    by (simp add: invalidate_defs)
next
  assume "\<not> has_own (key_segment (queryKey (c ! i)) 1) k \<and>
    inh (key_segment (queryKey (c ! i)) 1) k = JUndefined"
  then show "optional_get inh (key_segment (queryKey (c ! i)) 1) k = JUndefined"
    by (simp add: optional_get_lacking)
qed

text \<open>
  The theorem at a cache with entries under \<open>{id: 1}\<close>, \<open>{id: 2}\<close> and \<open>{name: "A"}\<close>:
  \<open>invalidate()\<close> marks all three, \<open>invalidate({id: 1})\<close> only the first.
\<close>

theorem invalidate_selection_witness:
  "invalidate
     (operation_handle no_inherited (createQueryKeys [''GetUser'']) (refClient no_inherited)
        ''GetUser'') None
     [user_entry (JObj 1 [(''id'', JNum 1)]), user_entry (JObj 2 [(''id'', JNum 2)]),
      user_entry (JObj 3 [(''name'', JStr ''A'')])]
   = [invalidated (user_entry (JObj 1 [(''id'', JNum 1)])),
      invalidated (user_entry (JObj 2 [(''id'', JNum 2)])),
      invalidated (user_entry (JObj 3 [(''name'', JStr ''A'')]))] \<and>
   [(''id'', JNum 1)] \<noteq> [] \<and>
   invalidate
     (operation_handle no_inherited (createQueryKeys [''GetUser'']) (refClient no_inherited)
        ''GetUser'')
     (Some [(''id'', JNum 1)])
     [user_entry (JObj 1 [(''id'', JNum 1)]), user_entry (JObj 2 [(''id'', JNum 2)]),
      user_entry (JObj 3 [(''name'', JStr ''A'')])]
   = [invalidated (user_entry (JObj 1 [(''id'', JNum 1)])),
      user_entry (JObj 2 [(''id'', JNum 2)]),
      user_entry (JObj 3 [(''name'', JStr ''A'')])] \<and>
   (''id'', JNum 1) \<in> set [(''id'', JNum 1)] \<and> JNum 1 \<noteq> JUndefined \<and>
   \<not> has_own (key_segment (queryKey (user_entry (JObj 3 [(''name'', JStr ''A'')]))) 1) ''id'' \<and>
   no_inherited (key_segment (queryKey (user_entry (JObj 3 [(''name'', JStr ''A'')]))) 1) ''id''
     = JUndefined \<and>
   optional_get no_inherited
     (key_segment (queryKey (user_entry (JObj 3 [(''name'', JStr ''A'')]))) 1) ''id''
     = JUndefined \<and>
   invalidate
     (operation_handle no_inherited (createQueryKeys [''GetUser'']) (refClient no_inherited)
        ''GetUser'')
     (Some [(''id'', JNum 1)])
     [user_entry (JObj 1 [(''id'', JNum 1)]), user_entry (JObj 2 [(''id'', JNum 2)]),
      user_entry (JObj 3 [(''name'', JStr ''A'')])] ! 2
   = user_entry (JObj 3 [(''name'', JStr ''A'')])"
  using invalidate_selection
          [of None no_inherited "createQueryKeys [''GetUser'']" "''GetUser''"
              "[user_entry (JObj 1 [(''id'', JNum 1)]), user_entry (JObj 2 [(''id'', JNum 2)]),
                user_entry (JObj 3 [(''name'', JStr ''A'')])]"
              "[(''id'', JNum 1)]" 2 "''id''" "JNum 1"]
  by (simp add: user_entry_def invalidated_def key_segment_def optional_get_def get_prop_def
        own_property_def strict_eq_def has_own_def no_inherited_def)

text \<open>
  The reference client reads back, under any key of the same hash, the data it wrote,
  unless the data is \<open>undefined\<close>: then the write changes nothing.
\<close>

lemma find_query_hash:
  "hashKey k' = hashKey k \<Longrightarrow> find_query k' c = find_query k c"
  by (simp add: find_query_def)






section \<open>Properties of the fetcher\<close>

text \<open>
  Claim C4, as stated: whenever the body holds a non-empty \<open>errors\<close> array the
  operation fails with the first error's message, and whenever the body holds no
  errors it resolves with \<open>data\<close>. It fails for \<open>{errors: [null]}\<close>: destructuring
  \<open>null\<close> raises a \<open>TypeError\<close> and no message is thrown. It fails as well for the
  body \<open>null\<close>, which holds no errors: reading \<open>json.errors\<close> raises a \<open>TypeError\<close>.
\<close>

theorem fetcher_null_error_counterexample:
  "fetcher ''https://gw'' (respond_with (JsObj [(''errors'', JsArr [JsNull]), (''data'', JsNull)]))
     ''query Q'' () None = Inl (Runtime TypeError) \<and>
   fetcher ''https://gw'' (respond_with JsNull) ''query Q'' () None = Inl (Runtime TypeError)"
  by (simp add: fetcher_def respond_with_def read_response_def truthy_def first_element_def
        member_def)

text \<open>
  Claim C4, amended. When the body has an \<open>errors\<close> array whose first element is not
  \<open>null\<close>, the operation fails with that element's \<open>message\<close> itself as the failure
  value; when the first element is \<open>null\<close> it fails with a \<open>TypeError\<close>. When the body
  is not \<open>null\<close> and has no \<open>errors\<close> (the member is missing or falsy), the operation
  resolves with the \<open>data\<close> member alone.
\<close>

theorem fetcher_errors_and_data:
  assumes "transport (build_request gateway query variables opts) = Inr js"
  shows "(member js ''errors'' = Some (JsArr (e # es)) \<and> e \<noteq> JsNull \<longrightarrow>
           fetcher gateway transport query variables opts
             = Inl (Thrown (member e ''message''))) \<and>
         (member js ''errors'' = Some (JsArr (JsNull # es)) \<longrightarrow>
           fetcher gateway transport query variables opts = Inl (Runtime TypeError)) \<and>
         (js \<noteq> JsNull \<and> \<not> truthy (member js ''errors'') \<longrightarrow>
           fetcher gateway transport query variables opts = Inr (member js ''data''))"
  using assms
  by (cases e)
     (auto simp: fetcher_def read_response_def truthy_def first_element_def member_def)

text \<open>
  The theorem at the response \<open>{errors: [{message: "boom"}], data: null}\<close>, which fails
  with \<open>"boom"\<close>, at \<open>{errors: [null]}\<close>, which fails with a \<open>TypeError\<close>, and at
  \<open>{data: 7}\<close>, which resolves with \<open>7\<close>.
\<close>

theorem fetcher_errors_and_data_witness:
  "respond_with
     (JsObj [(''errors'', JsArr [JsObj [(''message'', JsStr ''boom'')]]), (''data'', JsNull)])
     (build_request ''https://gw'' ''query Q'' () None)
     = Inr (JsObj [(''errors'', JsArr [JsObj [(''message'', JsStr ''boom'')]]),
                   (''data'', JsNull)]) \<and>
   fetcher ''https://gw''
     (respond_with
        (JsObj [(''errors'', JsArr [JsObj [(''message'', JsStr ''boom'')]]), (''data'', JsNull)]))
     ''query Q'' () None = Inl (Thrown (Some (JsStr ''boom''))) \<and>
   respond_with (JsObj [(''errors'', JsArr [JsNull])])
     (build_request ''https://gw'' ''query Q'' () None)
     = Inr (JsObj [(''errors'', JsArr [JsNull])]) \<and>
   fetcher ''https://gw'' (respond_with (JsObj [(''errors'', JsArr [JsNull])]))
     ''query Q'' () None = Inl (Runtime TypeError) \<and>
   respond_with (JsObj [(''data'', JsNum 7)]) (build_request ''https://gw'' ''query Q'' () None)
     = Inr (JsObj [(''data'', JsNum 7)]) \<and>
   JsObj [(''data'', JsNum 7)] \<noteq> JsNull \<and>
   \<not> truthy (member (JsObj [(''data'', JsNum 7)]) ''errors'') \<and>
   fetcher ''https://gw'' (respond_with (JsObj [(''data'', JsNum 7)])) ''query Q'' () None
     = Inr (Some (JsNum 7))"
proof -
  let ?boom =
    "JsObj [(''errors'', JsArr [JsObj [(''message'', JsStr ''boom'')]]), (''data'', JsNull)]"
  let ?null = "JsObj [(''errors'', JsArr [JsNull])]"
  let ?ok = "JsObj [(''data'', JsNum 7)]"
  have r1: "respond_with ?boom (build_request ''https://gw'' ''query Q'' () None) = Inr ?boom"
    by (simp add: respond_with_def)
  have r2: "respond_with ?ok (build_request ''https://gw'' ''query Q'' () None) = Inr ?ok"
    by (simp add: respond_with_def)
  have r3: "respond_with ?null (build_request ''https://gw'' ''query Q'' () None) = Inr ?null"
    by (simp add: respond_with_def)
  have t: "\<not> truthy (member ?ok ''errors'')" by (simp add: truthy_def member_def)
  from r1 fetcher_errors_and_data
         [where transport = "respond_with ?boom" and gateway = "''https://gw''"
            and query = "''query Q''" and variables = "()" and opts = None and js = ?boom
            and e = "JsObj [(''message'', JsStr ''boom'')]" and es = "[]"]
  have "fetcher ''https://gw'' (respond_with ?boom) ''query Q'' () None
          = Inl (Thrown (Some (JsStr ''boom'')))"
    by (simp add: member_def)
  moreover from r2 fetcher_errors_and_data
         [where transport = "respond_with ?ok" and gateway = "''https://gw''"
            and query = "''query Q''" and variables = "()" and opts = None and js = ?ok]
  have "fetcher ''https://gw'' (respond_with ?ok) ''query Q'' () None = Inr (Some (JsNum 7))"
    by (simp add: member_def truthy_def)
  moreover from r3 fetcher_errors_and_data
         [where transport = "respond_with ?null" and gateway = "''https://gw''"
            and query = "''query Q''" and variables = "()" and opts = None and js = ?null
            and es = "[]"]
  have "fetcher ''https://gw'' (respond_with ?null) ''query Q'' () None = Inl (Runtime TypeError)"
    by (simp add: member_def)
  ultimately show ?thesis using r1 r2 r3 t by simp
qed

text \<open>
  Claim C10, as stated: on a body with \<open>errors: []\<close> the operation fails by throwing
  the \<open>undefined\<close> message of the missing first element. The failure value is not
  \<open>undefined\<close>: \<open>json.errors[0]\<close> is \<open>undefined\<close>, and destructuring it raises a
  \<open>TypeError\<close> before the \<open>throw\<close> statement is reached.
\<close>

theorem fetcher_empty_errors_counterexample:
  "fetcher ''https://gw'' (respond_with (JsObj [(''errors'', JsArr []), (''data'', JsNum 7)]))
     ''query Q'' () None \<noteq> Inl (Thrown None)"
  by (simp add: fetcher_def respond_with_def read_response_def truthy_def first_element_def
        member_def)

text \<open>
  Claim C10, amended. Whenever the \<open>errors\<close> member of the body is truthy the operation
  fails and does not resolve with \<open>data\<close>; an empty array is truthy, and for it the
  failure is the \<open>TypeError\<close> of destructuring the missing first element.
\<close>

theorem fetcher_truthy_errors_fail:
  assumes "transport (build_request gateway query variables opts) = Inr js"
  shows "(truthy (member js ''errors'') \<longrightarrow>
            isl (fetcher gateway transport query variables opts)) \<and>
         (member js ''errors'' = Some (JsArr []) \<longrightarrow>
            fetcher gateway transport query variables opts = Inl (Runtime TypeError))"
  using assms
  by (auto simp: fetcher_def read_response_def truthy_def first_element_def member_def
           split: option.splits json.splits list.splits)

theorem fetcher_truthy_errors_fail_witness:
  "respond_with (JsObj [(''errors'', JsArr []), (''data'', JsNum 7)])
     (build_request ''https://gw'' ''query Q'' () None)
     = Inr (JsObj [(''errors'', JsArr []), (''data'', JsNum 7)]) \<and>
   truthy (member (JsObj [(''errors'', JsArr []), (''data'', JsNum 7)]) ''errors'') \<and>
   member (JsObj [(''errors'', JsArr []), (''data'', JsNum 7)]) ''errors'' = Some (JsArr []) \<and>
   fetcher ''https://gw'' (respond_with (JsObj [(''errors'', JsArr []), (''data'', JsNum 7)]))
     ''query Q'' () None = Inl (Runtime TypeError)"
proof -
  let ?js = "JsObj [(''errors'', JsArr []), (''data'', JsNum 7)]"
  have r: "respond_with ?js (build_request ''https://gw'' ''query Q'' () None) = Inr ?js"
    by (simp add: respond_with_def)
  have t: "truthy (member ?js ''errors'')" by (simp add: truthy_def member_def)
  have m: "member ?js ''errors'' = Some (JsArr [])" by (simp add: member_def)
  from r fetcher_truthy_errors_fail
         [where transport = "respond_with ?js" and gateway = "''https://gw''"
            and query = "''query Q''" and variables = "()" and opts = None and js = ?js]
  have "fetcher ''https://gw'' (respond_with ?js) ''query Q'' () None = Inl (Runtime TypeError)"
    by (simp add: member_def)
  with r t m show ?thesis by blast
qed

lemma map_add_lookup:
  "([k0 \<mapsto> v0] ++ m) k =
     (case m k of Some v \<Rightarrow> Some v | None \<Rightarrow> if k = k0 then Some v0 else None)"
  by (auto simp: map_add_def split: option.splits)

text \<open>
  Claim C6. With neither a \<open>customHeaders\<close> nor an \<open>endpoint\<close> key, every property of
  \<open>options\<close> becomes a request header, over the default \<open>Content-Type\<close>, which a
  property of that name replaces, and the request goes to the gateway endpoint. With
  either key, \<open>options\<close> is read as the wrapper: the headers are the default and the
  entries of \<open>customHeaders\<close>, and the request goes to \<open>endpoint\<close> when one is given
  and to the gateway endpoint otherwise.
\<close>

theorem fetcher_options:
  "(opts = Some ob \<and> \<not> has_key ''customHeaders'' ob \<and> \<not> has_key ''endpoint'' ob \<longrightarrow>
      req_headers (build_request gateway query variables opts) hname =
        (case ob hname of Some v \<Rightarrow> Some v
         | None \<Rightarrow> if hname = ''Content-Type'' then Some (OStr ''application/json'')
                    else None) \<and>
      req_target (build_request gateway query variables opts) = OStr gateway) \<and>
   (opts = Some ob \<and> (has_key ''customHeaders'' ob \<or> has_key ''endpoint'' ob) \<longrightarrow>
      req_headers (build_request gateway query variables opts) =
        [''Content-Type'' \<mapsto> OStr ''application/json''] ++
        (if truthy_optval (option_member ob ''customHeaders'')
         then spread (option_member ob ''customHeaders'') else Map.empty) \<and>
      (ob ''customHeaders'' = Some (OHeaders h) \<longrightarrow>
         req_headers (build_request gateway query variables opts) hname =
           (case h hname of Some v \<Rightarrow> Some (OStr v)
            | None \<Rightarrow> if hname = ''Content-Type'' then Some (OStr ''application/json'')
                       else None)) \<and>
      (ob ''endpoint'' = None \<or> ob ''endpoint'' = Some OUndefined \<longrightarrow>
         req_target (build_request gateway query variables opts) = OStr gateway) \<and>
      (ob ''endpoint'' = Some (OStr u) \<and> u \<noteq> [] \<longrightarrow>
         req_target (build_request gateway query variables opts) = OStr u))"
  by (auto simp: build_request_def resolve_options_def map_add_lookup has_key_def
        option_member_def truthy_optval_def spread_def split: option.splits)

text \<open>
  The theorem at the flat map \<open>{Authorization: "Bearer t"}\<close> and at the wrapper
  \<open>{customHeaders: {"X-Trace": "1"}, endpoint: "https://other"}\<close>.
\<close>

theorem fetcher_options_witness:
  "\<not> has_key ''customHeaders'' [''Authorization'' \<mapsto> OStr ''Bearer t''] \<and>
   \<not> has_key ''endpoint'' [''Authorization'' \<mapsto> OStr ''Bearer t''] \<and>
   req_headers (build_request ''https://gw'' ''query Q'' ()
      (Some [''Authorization'' \<mapsto> OStr ''Bearer t''])) ''Authorization''
     = Some (OStr ''Bearer t'') \<and>
   req_target (build_request ''https://gw'' ''query Q'' ()
      (Some [''Authorization'' \<mapsto> OStr ''Bearer t''])) = OStr ''https://gw'' \<and>
   has_key ''customHeaders''
     [''customHeaders'' \<mapsto> OHeaders [''X-Trace'' \<mapsto> ''1''],
      ''endpoint'' \<mapsto> OStr ''https://other''] \<and>
   req_headers (build_request ''https://gw'' ''query Q'' ()
      (Some [''customHeaders'' \<mapsto> OHeaders [''X-Trace'' \<mapsto> ''1''],
             ''endpoint'' \<mapsto> OStr ''https://other''])) ''X-Trace''
     = Some (OStr ''1'') \<and>
   req_target (build_request ''https://gw'' ''query Q'' ()
      (Some [''customHeaders'' \<mapsto> OHeaders [''X-Trace'' \<mapsto> ''1''],
             ''endpoint'' \<mapsto> OStr ''https://other''])) = OStr ''https://other'' \<and>
   has_key ''customHeaders'' [''customHeaders'' \<mapsto> OHeaders [''X-Trace'' \<mapsto> ''1'']] \<and>
   req_target (build_request ''https://gw'' ''query Q'' ()
      (Some [''customHeaders'' \<mapsto> OHeaders [''X-Trace'' \<mapsto> ''1'']])) = OStr ''https://gw''"
proof -
  let ?only = "[''customHeaders'' \<mapsto> OHeaders [''X-Trace'' \<mapsto> ''1'']]"
  have o1: "has_key ''customHeaders'' ?only" by (simp add: has_key_def)
  have o2: "?only ''endpoint'' = None" by simp
  from o1 o2 fetcher_options
         [of "Some ?only" ?only "''https://gw''" "''query Q''" "()"]
  have c: "req_target (build_request ''https://gw'' ''query Q'' () (Some ?only))
             = OStr ''https://gw''"
    by blast
  let ?flat = "[''Authorization'' \<mapsto> OStr ''Bearer t'']"
  let ?wrap = "[''customHeaders'' \<mapsto> OHeaders [''X-Trace'' \<mapsto> ''1''],
                ''endpoint'' \<mapsto> OStr ''https://other'']"
  have f1: "\<not> has_key ''customHeaders'' ?flat" and f2: "\<not> has_key ''endpoint'' ?flat"
    by (simp_all add: has_key_def)
  have w1: "has_key ''customHeaders'' ?wrap" by (simp add: has_key_def)
  have w2: "?wrap ''customHeaders'' = Some (OHeaders [''X-Trace'' \<mapsto> ''1''])" by simp
  have w3: "?wrap ''endpoint'' = Some (OStr ''https://other'')" by simp
  from f1 f2 fetcher_options
         [of "Some ?flat" ?flat "''https://gw''" "''query Q''" "()" "''Authorization''"]
  have a: "req_headers (build_request ''https://gw'' ''query Q'' () (Some ?flat)) ''Authorization''
             = Some (OStr ''Bearer t'') \<and>
           req_target (build_request ''https://gw'' ''query Q'' () (Some ?flat)) = OStr ''https://gw''"
    by simp
  from w1 w2 w3 fetcher_options
         [of "Some ?wrap" ?wrap "''https://gw''" "''query Q''" "()" "''X-Trace''"
             "[''X-Trace'' \<mapsto> ''1'']" "''https://other''"]
  have "req_headers (build_request ''https://gw'' ''query Q'' () (Some ?wrap)) ''X-Trace''
             = (case [''X-Trace'' \<mapsto> ''1''] ''X-Trace'' of Some v \<Rightarrow> Some (OStr v)
                | None \<Rightarrow> if ''X-Trace'' = ''Content-Type''
                           then Some (OStr ''application/json'') else None) \<and>
           req_target (build_request ''https://gw'' ''query Q'' () (Some ?wrap))
             = OStr ''https://other''"
    by blast
  then have b: "req_headers (build_request ''https://gw'' ''query Q'' () (Some ?wrap)) ''X-Trace''
             = Some (OStr ''1'') \<and>
           req_target (build_request ''https://gw'' ''query Q'' () (Some ?wrap))
             = OStr ''https://other''"
    by simp
  from f1 f2 w1 o1 a b c show ?thesis by blast
qed


section \<open>Properties of the configuration compiler\<close>

lemma assign_new: "k \<notin> fst ` set ps \<Longrightarrow> assign k v ps = ps @ [(k, v)]"
  by (induction ps) auto

text \<open>Two paths whose endings differ within their last \<open>n\<close> characters differ.\<close>

lemma suffix_differ:
  assumes "n \<le> length x" "n \<le> length y" "take n (rev x) \<noteq> take n (rev y)"
  shows "a @ x \<noteq> b @ y"
proof
  assume "a @ x = b @ y"
  then have "rev x @ rev a = rev y @ rev b" by (metis rev_append)
  then have "take n (rev x @ rev a) = take n (rev y @ rev b)" by simp
  with assms(1,2) have "take n (rev x) = take n (rev y)" by simp
  with assms(3) show False by simp
qed

lemma dir_ne_request:
  "b @ ''/'' @ n @ ''/'' \<noteq> b' @ ''/'' @ m @ ''/plugins'' @ ''/graphql-request.ts''"
  using suffix_differ [of 1 "''/''" "''/graphql-request.ts''" "b @ ''/'' @ n"
          "b' @ ''/'' @ m @ ''/plugins''"]
  by simp

lemma dir_ne_query:
  "b @ ''/'' @ n @ ''/'' \<noteq> b' @ ''/'' @ m @ ''/plugins'' @ ''/react-query.ts''"
  using suffix_differ [of 1 "''/''" "''/react-query.ts''" "b @ ''/'' @ n"
          "b' @ ''/'' @ m @ ''/plugins''"]
  by simp

lemma dir_ne_utils:
  "b @ ''/'' @ n @ ''/'' \<noteq> b' @ ''/'' @ m @ ''/cache-utils.ts''"
  using suffix_differ [of 1 "''/''" "''/cache-utils.ts''" "b @ ''/'' @ n" "b' @ ''/'' @ m"]
  by simp

lemma request_ne_query:
  "b @ ''/'' @ n @ ''/plugins'' @ ''/graphql-request.ts''
     \<noteq> b' @ ''/'' @ m @ ''/plugins'' @ ''/react-query.ts''"
  using suffix_differ [of 4 "''/graphql-request.ts''" "''/react-query.ts''"
          "b @ ''/'' @ n @ ''/plugins''" "b' @ ''/'' @ m @ ''/plugins''"]
  by simp

lemma request_ne_utils:
  "b @ ''/'' @ n @ ''/plugins'' @ ''/graphql-request.ts'' \<noteq> b' @ ''/'' @ m @ ''/cache-utils.ts''"
  using suffix_differ [of 4 "''/graphql-request.ts''" "''/cache-utils.ts''"
          "b @ ''/'' @ n @ ''/plugins''" "b' @ ''/'' @ m"]
  by simp

lemma query_ne_utils:
  "b @ ''/'' @ n @ ''/plugins'' @ ''/react-query.ts'' \<noteq> b' @ ''/'' @ m @ ''/cache-utils.ts''"
  using suffix_differ [of 4 "''/react-query.ts''" "''/cache-utils.ts''"
          "b @ ''/'' @ n @ ''/plugins''" "b' @ ''/'' @ m"]
  by simp

lemma readme_ne_dir: "b @ ''/../README.md'' \<noteq> b' @ ''/'' @ m @ ''/''"
  using suffix_differ [of 1 "''/../README.md''" "''/''" "b" "b' @ ''/'' @ m"]
  by simp

lemma readme_ne_request:
  "b @ ''/../README.md'' \<noteq> b' @ ''/'' @ m @ ''/plugins'' @ ''/graphql-request.ts''"
  using suffix_differ [of 1 "''/../README.md''" "''/graphql-request.ts''" "b"
          "b' @ ''/'' @ m @ ''/plugins''"]
  by simp

lemma readme_ne_query:
  "b @ ''/../README.md'' \<noteq> b' @ ''/'' @ m @ ''/plugins'' @ ''/react-query.ts''"
  using suffix_differ [of 1 "''/../README.md''" "''/react-query.ts''" "b"
          "b' @ ''/'' @ m @ ''/plugins''"]
  by simp

lemma readme_ne_utils: "b @ ''/../README.md'' \<noteq> b' @ ''/'' @ m @ ''/cache-utils.ts''"
  using suffix_differ [of 1 "''/../README.md''" "''/cache-utils.ts''" "b" "b' @ ''/'' @ m"]
  by simp

lemma distinct_endpoint_keys: "distinct (endpoint_keys base name)"
  using dir_ne_request [of base name base name] dir_ne_query [of base name base name]
    dir_ne_utils [of base name base name] request_ne_query [of base name base name]
    request_ne_utils [of base name base name] query_ne_utils [of base name base name]
  by (simp add: endpoint_keys_def)

text \<open>A path belongs to one endpoint name only.\<close>

lemma endpoint_keys_disjoint:
  assumes "k \<in> set (endpoint_keys base n)" and "k \<in> set (endpoint_keys base m)"
  shows "n = m"
  using assms
    dir_ne_request [of base n base m] dir_ne_query [of base n base m]
    dir_ne_utils [of base n base m] request_ne_query [of base n base m]
    request_ne_utils [of base n base m] query_ne_utils [of base n base m]
    dir_ne_request [of base m base n] dir_ne_query [of base m base n]
    dir_ne_utils [of base m base n] request_ne_query [of base m base n]
    request_ne_utils [of base m base n] query_ne_utils [of base m base n]
  by (auto simp: endpoint_keys_def)

lemma readme_not_endpoint_key: "base @ ''/../README.md'' \<notin> set (endpoint_keys base n)"
  using readme_ne_dir [of base base n] readme_ne_request [of base base n]
    readme_ne_query [of base base n] readme_ne_utils [of base base n]
  by (simp add: endpoint_keys_def)

text \<open>On an object that has none of its four paths yet, the loop body adds them at the end.\<close>

lemma endpoint_targets_keys:
  assumes "set (endpoint_keys base (fst entry)) \<inter> fst ` set gen = {}"
  shows "map fst (endpoint_targets pp base version entry gen)
           = map fst gen @ endpoint_keys base (fst entry)"
proof -
  obtain k1 k2 k3 k4 where ks: "endpoint_keys base (fst entry) = [k1, k2, k3, k4]"
    and k1: "k1 = (base @ ''/'' @ fst entry) @ ''/''"
    and k2: "k2 = ((base @ ''/'' @ fst entry) @ ''/plugins'') @ ''/graphql-request.ts''"
    and k3: "k3 = ((base @ ''/'' @ fst entry) @ ''/plugins'') @ ''/react-query.ts''"
    and k4: "k4 = (base @ ''/'' @ fst entry) @ ''/cache-utils.ts''"
    by (simp add: endpoint_keys_def)
  from distinct_endpoint_keys [of base "fst entry"] ks
  have d: "distinct [k1, k2, k3, k4]" by simp
  from assms ks have n: "k1 \<notin> fst ` set gen" "k2 \<notin> fst ` set gen" "k3 \<notin> fst ` set gen"
    "k4 \<notin> fst ` set gen" by auto
  have "map fst (assign k4 v4 (assign k3 v3 (assign k2 v2 (assign k1 v1 gen))))
          = map fst gen @ [k1, k2, k3, k4]" for v1 v2 v3 v4
  proof -
    have a1: "assign k1 v1 gen = gen @ [(k1, v1)]"
      using n by (simp add: assign_new)
    have a2: "assign k2 v2 (gen @ [(k1, v1)]) = gen @ [(k1, v1), (k2, v2)]"
      using d n by (subst assign_new) auto
    have a3: "assign k3 v3 (gen @ [(k1, v1), (k2, v2)]) = gen @ [(k1, v1), (k2, v2), (k3, v3)]"
      using d n by (subst assign_new) auto
    have a4: "assign k4 v4 (gen @ [(k1, v1), (k2, v2), (k3, v3)])
                = gen @ [(k1, v1), (k2, v2), (k3, v3), (k4, v4)]"
      using d n by (subst assign_new) auto
    show ?thesis by (simp add: a1 a2 a3 a4)
  qed
  then show ?thesis
    unfolding endpoint_targets_def Let_def ks
      k1[symmetric] k2[symmetric] k3[symmetric] k4[symmetric]
    by simp
qed

lemma loop_keys:
  assumes "distinct (map fst es)"
  shows "map fst (foldl (\<lambda>g entry. endpoint_targets pp base version entry g) [] es)
           = concat (map (\<lambda>e. endpoint_keys base (fst e)) es)"
  using assms
proof (induction es rule: rev_induct)
  case Nil
  then show ?case by simp
next
  case (snoc e es)
  let ?gen = "foldl (\<lambda>g entry. endpoint_targets pp base version entry g) [] es"
  from snoc have ih: "map fst ?gen = concat (map (\<lambda>e. endpoint_keys base (fst e)) es)"
    and fresh: "fst e \<notin> fst ` set es" by auto
  have "set (endpoint_keys base (fst e)) \<inter> fst ` set ?gen = {}"
  proof (rule ccontr)
    assume "set (endpoint_keys base (fst e)) \<inter> fst ` set ?gen \<noteq> {}"
    then obtain k where k: "k \<in> set (endpoint_keys base (fst e))"
      and "k \<in> set (map fst ?gen)"
      by auto
    with ih obtain e' where "e' \<in> set es" "k \<in> set (endpoint_keys base (fst e'))"
      by auto
    with k fresh show False by (auto dest: endpoint_keys_disjoint)
  qed
  then show ?case by (simp add: endpoint_targets_keys ih)
qed

lemma distinct_loop_keys:
  "distinct (map fst es) \<Longrightarrow> distinct (concat (map (\<lambda>e. endpoint_keys base (fst e)) es))"
proof (induction es)
  case Nil
  then show ?case by simp
next
  case (Cons e es)
  then have "fst e \<notin> fst ` set es" by auto
  then have "set (endpoint_keys base (fst e))
               \<inter> (\<Union>x \<in> set es. set (endpoint_keys base (fst x))) = {}"
    by (auto dest: endpoint_keys_disjoint)
  with Cons show ?case by (simp add: distinct_endpoint_keys)
qed

lemma length_loop_keys:
  "length (concat (map (\<lambda>e. endpoint_keys base (fst e)) es)) = 4 * length es"
  by (induction es) (simp_all add: endpoint_keys_def)

text \<open>The output paths of the plan, in order: four per endpoint, then the README.\<close>

lemma generates_keys:
  assumes "distinct (map fst (endpoints opts))"
  shows "map fst (generates (createCodegenConfig pp opts)) =
           (let base = (case baseOutputDir opts of None \<Rightarrow> ''src/libs/gql/__gen__''
                        | Some b \<Rightarrow> b)
            in concat (map (\<lambda>e. endpoint_keys base (fst e)) (endpoints opts)) @
               (if endpoints opts = [] then [] else [base @ ''/../README.md'']))"
proof (cases "endpoints opts")
  case Nil
  then show ?thesis by (simp add: createCodegenConfig_def)
next
  case (Cons e es)
  define base where
    "base = (case baseOutputDir opts of None \<Rightarrow> ''src/libs/gql/__gen__'' | Some b \<Rightarrow> b)"
  define version where
    "version = (case reactQueryVersion opts of None \<Rightarrow> 5 | Some v \<Rightarrow> v)"
  let ?gen = "foldl (\<lambda>g entry. endpoint_targets pp base version entry g) [] (endpoints opts)"
  have keys: "map fst ?gen = concat (map (\<lambda>e. endpoint_keys base (fst e)) (endpoints opts))"
    using assms by (rule loop_keys)
  have "base @ ''/../README.md'' \<notin> fst ` set ?gen"
  proof
    assume "base @ ''/../README.md'' \<in> fst ` set ?gen"
    then have "base @ ''/../README.md'' \<in> set (map fst ?gen)" by simp
    with keys obtain x where "base @ ''/../README.md'' \<in> set (endpoint_keys base (fst x))"
      by auto
    then show False by (simp add: readme_not_endpoint_key)
  qed
  then have "map fst (assign (base @ ''/../README.md'') t ?gen)
               = map fst ?gen @ [base @ ''/../README.md'']" for t
    by (simp add: assign_new)
  with keys Cons show ?thesis
    by (simp add: createCodegenConfig_def Let_def base_def version_def)
qed

text \<open>
  Claim C1. For an endpoints map (names pairwise distinct) the plan has four targets
  per endpoint and, when the map is not empty, one documentation target more; the
  output paths are pairwise distinct; for the empty map the plan has no target.
\<close>

theorem createCodegenConfig_targets:
  assumes "distinct (map fst (endpoints opts))"
  shows "length (generates (createCodegenConfig pp opts))
           = 4 * length (endpoints opts) + (if endpoints opts = [] then 0 else 1) \<and>
         distinct (map fst (generates (createCodegenConfig pp opts))) \<and>
         (endpoints opts = [] \<longrightarrow> generates (createCodegenConfig pp opts) = [])"
proof -
  define base where
    "base = (case baseOutputDir opts of None \<Rightarrow> ''src/libs/gql/__gen__'' | Some b \<Rightarrow> b)"
  have keys: "map fst (generates (createCodegenConfig pp opts)) =
      concat (map (\<lambda>e. endpoint_keys base (fst e)) (endpoints opts)) @
               (if endpoints opts = [] then [] else [base @ ''/../README.md''])"
    using generates_keys [OF assms, of pp] by (simp add: base_def Let_def)
  have "length (map fst (generates (createCodegenConfig pp opts)))
           = 4 * length (endpoints opts) + (if endpoints opts = [] then 0 else 1)"
    unfolding keys by (simp add: length_loop_keys)
  then have len: "length (generates (createCodegenConfig pp opts))
           = 4 * length (endpoints opts) + (if endpoints opts = [] then 0 else 1)" by simp
  have "base @ ''/../README.md''
          \<notin> set (concat (map (\<lambda>e. endpoint_keys base (fst e)) (endpoints opts)))"
    by (auto simp: readme_not_endpoint_key)
  with distinct_loop_keys [OF assms, of base]
  have dist: "distinct (map fst (generates (createCodegenConfig pp opts)))"
    unfolding keys by simp
  from len have "endpoints opts = [] \<longrightarrow> generates (createCodegenConfig pp opts) = []"
    by auto
  with len dist show ?thesis by blast
qed

text \<open>The theorem at a map of two endpoints (nine targets) and at the empty map.\<close>

theorem createCodegenConfig_targets_witness:
  "distinct (map fst (endpoints (example_options
      [(''main'', example_endpoint ''https://a''), (''billing'', example_endpoint ''https://b'')]))) \<and>
   length (generates (createCodegenConfig ((@) ''/pkg/dist/core/'') (example_options
      [(''main'', example_endpoint ''https://a''), (''billing'', example_endpoint ''https://b'')])))
     = 9 \<and>
   distinct (map fst (endpoints (example_options []))) \<and>
   generates (createCodegenConfig ((@) ''/pkg/dist/core/'') (example_options [])) = []"
proof -
  let ?two = "example_options
      [(''main'', example_endpoint ''https://a''), (''billing'', example_endpoint ''https://b'')]"
  have d2: "distinct (map fst (endpoints ?two))" by (simp add: example_options_def)
  have d0: "distinct (map fst (endpoints (example_options [])))"
    by (simp add: example_options_def)
  from createCodegenConfig_targets [OF d2, of "(@) ''/pkg/dist/core/''"]
  have "length (generates (createCodegenConfig ((@) ''/pkg/dist/core/'') ?two)) = 9"
    by (simp add: example_options_def)
  moreover from createCodegenConfig_targets [OF d0, of "(@) ''/pkg/dist/core/''"]
  have "generates (createCodegenConfig ((@) ''/pkg/dist/core/'') (example_options [])) = []"
    by (simp add: example_options_def)
  ultimately show ?thesis using d2 d0 by blast
qed

end
